theory Spec2Isabelle
  imports Complex_Main
begin

section \<open>The sliding-window rate limiter (\<^verbatim>\<open>class RateLimiter\<close>, server.py)\<close>

text \<open>
  Timestamps are the readings of \<^verbatim>\<open>time.time()\<close>. The clock is not part of the program, so
  every operation that reads it takes the reading \<open>now\<close> as an argument, as the
  specification's \<^verbatim>\<open>admit(key, now)\<close> does. Python floats are idealised as reals: the
  comparison \<^verbatim>\<open>t > now - 60\<close> is exact here.

  \<^verbatim>\<open>self.requests\<close> is a \<^verbatim>\<open>defaultdict(list)\<close>: a dictionary whose lookup of a missing key
  gives the empty list. It is a map from keys to windows, read through \<open>window\<close>.
\<close>

record RateLimiter =
  requests_per_minute :: int
  requests :: "string \<rightharpoonup> real list"

definition RateLimiter_init :: "int \<Rightarrow> RateLimiter" where
  "RateLimiter_init rpm = \<lparr>requests_per_minute = rpm, requests = Map.empty\<rparr>"

definition window :: "RateLimiter \<Rightarrow> string \<Rightarrow> real list" where
  "window rl api_key = (case requests rl api_key of None \<Rightarrow> [] | Some w \<Rightarrow> w)"

text \<open>
  \<^verbatim>\<open>is_rate_limited\<close> returns its boolean (\<open>True\<close>: limited) together with the limiter
  after the call. The pruned list is stored in both branches; \<open>now\<close> is appended only
  when the call is admitted.
\<close>

definition is_rate_limited :: "real \<Rightarrow> RateLimiter \<Rightarrow> string \<Rightarrow> bool \<times> RateLimiter" where
  "is_rate_limited now rl api_key =
     (let minute_ago = now - 60;
          kept = filter (\<lambda>t. t > minute_ago) (window rl api_key);
          rl1 = rl\<lparr>requests := (requests rl)(api_key \<mapsto> kept)\<rparr>
      in if int (length kept) \<ge> requests_per_minute rl1
         then (True, rl1)
         else (False, rl1\<lparr>requests := (requests rl1)(api_key \<mapsto> kept @ [now])\<rparr>))"

text \<open>
  Drivers for sequences of calls. \<open>admit_all\<close> makes the calls for one key at the given
  clock readings, in order, and collects the results; \<open>run_calls\<close> makes calls for
  arbitrary keys and keeps only the limiter.
\<close>

fun admit_all :: "RateLimiter \<Rightarrow> string \<Rightarrow> real list \<Rightarrow> bool list \<times> RateLimiter" where
  "admit_all rl k [] = ([], rl)"
| "admit_all rl k (t # ts) =
     (case is_rate_limited t rl k of
        (r, rl1) \<Rightarrow> (case admit_all rl1 k ts of (rs, rl2) \<Rightarrow> (r # rs, rl2)))"

fun run_calls :: "RateLimiter \<Rightarrow> (string \<times> real) list \<Rightarrow> RateLimiter" where
  "run_calls rl [] = rl"
| "run_calls rl ((k, t) # cs) = run_calls (snd (is_rate_limited t rl k)) cs"

text \<open>
  The bound that the limiter keeps on every window, whatever calls are made: no window is
  longer than the limit (a limit below 0 admits nothing, as 0 does).
\<close>

definition within_limit :: "RateLimiter \<Rightarrow> bool" where
  "within_limit rl = (\<forall>k. int (length (window rl k)) \<le> max 0 (requests_per_minute rl))"

section \<open>Values, exceptions and responses\<close>

text \<open>
  \<open>json\<close> is what \<^verbatim>\<open>json.loads\<close> returns and what a JSON response carries. An object is
  the list of its items; a Python \<^verbatim>\<open>dict\<close> has each key once, and a lookup reads the list
  with \<open>map_of\<close>.

  \<open>pyval\<close> adds what the handlers put into a response before it is serialised: the
  members of \<^verbatim>\<open>ComponentType\<close>, a plain \<^verbatim>\<open>Enum\<close>, which \<^verbatim>\<open>BaseModel.dict()\<close> keeps as they
  are.
\<close>

datatype json =
    JNull
  | JBool bool
  | JInt int
  | JFloat real
  | JStr string
  | JArr "json list"
  | JObj "(string \<times> json) list"

datatype ComponentType = BUTTON | FORM | CARD | DIALOG | TABLE

fun ComponentType_value :: "ComponentType \<Rightarrow> string" where
  "ComponentType_value BUTTON = ''button''"
| "ComponentType_value FORM = ''form''"
| "ComponentType_value CARD = ''card''"
| "ComponentType_value DIALOG = ''dialog''"
| "ComponentType_value TABLE = ''table''"

definition ComponentType_of_value :: "string \<Rightarrow> ComponentType option" where
  "ComponentType_of_value s =
     find (\<lambda>m. ComponentType_value m = s) [BUTTON, FORM, CARD, DIALOG, TABLE]"

datatype pyval =
    Plain json
  | EnumMember ComponentType
  | PyDict "(string \<times> pyval) list"

text \<open>
  Exceptions are values. \<open>HTTPException\<close> carries the status and the reason of an
  \<^verbatim>\<open>aiohttp.web.HTTPException\<close>; the other constructors carry the exception's message.
  \<open>OtherException\<close> stands for every other subclass of \<^verbatim>\<open>Exception\<close>; what is not an
  \<^verbatim>\<open>Exception\<close> (a cancellation, an interrupt) is outside the model.
\<close>

datatype exn =
    is_HTTPException: HTTPException nat string
  | is_ValueError: ValueError string
  | is_TypeError: TypeError string
  | OtherException string

datatype response =
    Json_response json
  | Http_error nat string

fun status :: "response \<Rightarrow> nat" where
  "status (Json_response body) = 200"
| "status (Http_error code reason) = code"

text \<open>
  \<^verbatim>\<open>web.HTTPBadRequest(reason=...)\<close> and the other exception classes of aiohttp are
  responses: their constructor sets the status and the reason, and refuses a reason that
  contains a newline with \<^verbatim>\<open>ValueError\<close>. So \<^verbatim>\<open>raise web.HTTPBadRequest(reason=r)\<close> raises
  the \<^verbatim>\<open>HTTPException\<close> only when \<open>r\<close> is one line. The reasons that the source writes as
  literals are one line, and the definitions below raise \<open>HTTPException\<close> directly for
  them; the two reasons built from the text of a \<^verbatim>\<open>ValidationError\<close> go through
  \<open>HTTPException_init\<close>. aiohttp sends the status and the reason in the status line and
  the text \<^verbatim>\<open>status: reason\<close> as the body; \<open>Http_error\<close> carries the two.
\<close>

definition HTTPException_init :: "nat \<Rightarrow> string \<Rightarrow> exn" where
  "HTTPException_init code reason =
     (if CHR 0x0A \<in> set reason
      then ValueError (''Reason cannot contain '' @ [CHR 0x5C, CHR ''n''])
      else HTTPException code reason)"

text \<open>
  \<^verbatim>\<open>json.dumps\<close> serialises dictionaries, lists, strings, numbers, booleans and
  \<^verbatim>\<open>None\<close>, and raises \<^verbatim>\<open>TypeError\<close> on any other object, so on an enum member.
  \<^verbatim>\<open>web.json_response(data)\<close> calls it when the response is built. The response carries
  the JSON document rather than its text.
\<close>

fun dumps :: "pyval \<Rightarrow> json option" where
  "dumps (Plain j) = Some j"
| "dumps (EnumMember e) = None"
| "dumps (PyDict kvs) =
     map_option JObj (those (map (\<lambda>(k, v). map_option (Pair k) (dumps v)) kvs))"

definition json_response :: "pyval \<Rightarrow> exn + response" where
  "json_response data =
     (case dumps data of
        None \<Rightarrow> Inl (TypeError ''Object of type ComponentType is not JSON serializable'')
      | Some j \<Rightarrow> Inr (Json_response j))"

section \<open>The pydantic models (\<^verbatim>\<open>UIComponent\<close>, \<^verbatim>\<open>DesignPattern\<close>)\<close>

record UIComponent =
  type :: ComponentType
  props :: "(string \<times> json) list"
  styles :: "(string \<times> json) list option"
  accessibility :: "(string \<times> json) list option"

record DesignPattern =
  pattern_type :: string
  pattern_context :: "(string \<times> json) list"
  constraints :: "string list"

text \<open>
  The validators of the field annotations, on values that come from a JSON body.
  The outer \<open>option\<close> is the validation: \<open>None\<close> is a validation error of the field.
  A field that is absent is \<open>None\<close> in the argument of the validators that take a
  \<open>json option\<close>.
\<close>

fun validate_enum :: "json option \<Rightarrow> ComponentType option" where
  "validate_enum (Some (JStr s)) = ComponentType_of_value s"
| "validate_enum _ = None"

fun validate_str :: "json option \<Rightarrow> string option" where
  "validate_str (Some (JStr s)) = Some s"
| "validate_str _ = None"

fun validate_dict :: "json option \<Rightarrow> (string \<times> json) list option" where
  "validate_dict (Some (JObj kvs)) = Some kvs"
| "validate_dict _ = None"

fun validate_dict_or_None :: "json option \<Rightarrow> (string \<times> json) list option option" where
  "validate_dict_or_None None = Some None"
| "validate_dict_or_None (Some JNull) = Some None"
| "validate_dict_or_None (Some (JObj kvs)) = Some (Some kvs)"
| "validate_dict_or_None _ = None"

fun the_str :: "json \<Rightarrow> string option" where
  "the_str (JStr s) = Some s"
| "the_str _ = None"

fun validate_str_list :: "json option \<Rightarrow> string list option" where
  "validate_str_list None = Some []"
| "validate_str_list (Some (JArr xs)) = those (map the_str xs)"
| "validate_str_list _ = None"

text \<open>
  The text of a \<^verbatim>\<open>ValidationError\<close>, \<^verbatim>\<open>str(e)\<close>, has pydantic's layout: a first line that
  names the model, then for each field that failed a line with the field's name and an
  indented line that describes the error. The wording of the description is pydantic's
  own and is a fixed text here.
\<close>

definition validation_message :: "string \<Rightarrow> string list \<Rightarrow> string" where
  "validation_message model failed =
     ''validation error for '' @ model
       @ concat (map (\<lambda>f. [CHR 0x0A] @ f @ [CHR 0x0A] @ ''  invalid value'') failed)"

text \<open>
  \<^verbatim>\<open>UIComponent(**data)\<close>: unpacking with \<^verbatim>\<open>**\<close> needs a mapping and raises
  \<^verbatim>\<open>TypeError\<close> on any other value; on a mapping pydantic validates every field, ignores
  the other keys and raises \<^verbatim>\<open>ValidationError\<close>, a subclass of \<^verbatim>\<open>ValueError\<close>, when a
  field fails.
\<close>

definition UIComponent_init :: "json \<Rightarrow> exn + UIComponent" where
  "UIComponent_init data =
     (case data of
        JObj kvs \<Rightarrow>
          (case (validate_enum (map_of kvs ''type''),
                 validate_dict (map_of kvs ''props''),
                 validate_dict_or_None (map_of kvs ''styles''),
                 validate_dict_or_None (map_of kvs ''accessibility'')) of
             (Some t, Some p, Some s, Some a) \<Rightarrow>
               Inr \<lparr>type = t, props = p, styles = s, accessibility = a\<rparr>
           | (t, p, s, a) \<Rightarrow>
               Inl (ValueError (validation_message ''UIComponent''
                     ((if t = None then [''type''] else [])
                      @ (if p = None then [''props''] else [])
                      @ (if s = None then [''styles''] else [])
                      @ (if a = None then [''accessibility''] else [])))))
      | _ \<Rightarrow> Inl (TypeError ''argument after ** must be a mapping''))"

definition DesignPattern_init :: "json \<Rightarrow> exn + DesignPattern" where
  "DesignPattern_init data =
     (case data of
        JObj kvs \<Rightarrow>
          (case (validate_str (map_of kvs ''pattern_type''),
                 validate_dict (map_of kvs ''context''),
                 validate_str_list (map_of kvs ''constraints'')) of
             (Some pt, Some c, Some cs) \<Rightarrow>
               Inr \<lparr>pattern_type = pt, pattern_context = c, constraints = cs\<rparr>
           | (pt, c, cs) \<Rightarrow>
               Inl (ValueError (validation_message ''DesignPattern''
                     ((if pt = None then [''pattern_type''] else [])
                      @ (if c = None then [''context''] else [])
                      @ (if cs = None then [''constraints''] else [])))))
      | _ \<Rightarrow> Inl (TypeError ''argument after ** must be a mapping''))"

text \<open>\<^verbatim>\<open>BaseModel.dict()\<close>: the fields by name, each with the value the model holds.\<close>

definition dict_or_None :: "(string \<times> json) list option \<Rightarrow> pyval" where
  "dict_or_None d = (case d of None \<Rightarrow> Plain JNull | Some kvs \<Rightarrow> Plain (JObj kvs))"

definition UIComponent_dict :: "UIComponent \<Rightarrow> pyval" where
  "UIComponent_dict c =
     PyDict [(''type'', EnumMember (type c)),
             (''props'', Plain (JObj (props c))),
             (''styles'', dict_or_None (styles c)),
             (''accessibility'', dict_or_None (accessibility c))]"

definition DesignPattern_dict :: "DesignPattern \<Rightarrow> pyval" where
  "DesignPattern_dict p =
     PyDict [(''pattern_type'', Plain (JStr (pattern_type p))),
             (''context'', Plain (JObj (pattern_context p))),
             (''constraints'', Plain (JArr (map JStr (constraints p))))]"

section \<open>The server (\<^verbatim>\<open>class LovableMCPServer\<close>, server.py)\<close>

text \<open>
  A request as the handlers read it: the method and the path, which the router reads;
  the headers (\<^verbatim>\<open>request.headers.get\<close> gives the first value of a name, \<open>map_of\<close> here;
  header names are taken in the spelling \<^verbatim>\<open>X-API-Key\<close>); and \<open>json_result\<close>, what
  \<^verbatim>\<open>await request.json()\<close> does on this request's body: the parsed document, or the
  exception it raises (\<^verbatim>\<open>ValueError\<close> on a body that is not JSON).
\<close>

record Request =
  http_method :: string
  path :: string
  headers :: "(string \<times> string) list"
  json_result :: "exn + json"

record LovableMCPServer =
  design_system :: string
  ui_framework :: string
  rate_limiter :: RateLimiter

text \<open>
  \<^verbatim>\<open>validate_request\<close>. \<^verbatim>\<open>not api_key\<close> holds for a missing header (\<^verbatim>\<open>None\<close>) and for the
  empty string. The limiter is called, and so changed, only after that check.
\<close>

definition validate_request ::
  "real \<Rightarrow> LovableMCPServer \<Rightarrow> Request \<Rightarrow> (exn + string) \<times> LovableMCPServer" where
  "validate_request now srv req =
     (case map_of (headers req) ''X-API-Key'' of
        None \<Rightarrow> (Inl (HTTPException 401 ''API key required''), srv)
      | Some api_key \<Rightarrow>
          if api_key = [] then (Inl (HTTPException 401 ''API key required''), srv)
          else
            (case is_rate_limited now (rate_limiter srv) api_key of
               (limited, rl) \<Rightarrow>
                 if limited
                 then (Inl (HTTPException 429 ''Rate limit exceeded. Please try again later.''),
                       srv\<lparr>rate_limiter := rl\<rparr>)
                 else (Inr api_key, srv\<lparr>rate_limiter := rl\<rparr>)))"

text \<open>
  The inner \<^verbatim>\<open>try: data = await request.json() except ValueError: raise
  web.HTTPBadRequest(...)\<close>, the same in the three handlers.
\<close>

definition parse_body :: "Request \<Rightarrow> exn + json" where
  "parse_body req =
     (case json_result req of
        Inl (ValueError m) \<Rightarrow> Inl (HTTPException 400 ''Invalid JSON payload'')
      | Inl e \<Rightarrow> Inl e
      | Inr data \<Rightarrow> Inr data)"

text \<open>
  The outer \<^verbatim>\<open>except web.HTTPException: raise\<close> and \<^verbatim>\<open>except Exception\<close> of each handler,
  and what aiohttp sends for the handler's outcome: the returned response, or the status
  and reason of the raised \<^verbatim>\<open>HTTPException\<close>.
\<close>

fun except_clauses :: "exn + response \<Rightarrow> exn + response" where
  "except_clauses (Inr resp) = Inr resp"
| "except_clauses (Inl (HTTPException code reason)) = Inl (HTTPException code reason)"
| "except_clauses (Inl e) = Inl (HTTPException 500 ''Internal server error occurred'')"

fun send :: "exn + response \<Rightarrow> response" where
  "send (Inr resp) = resp"
| "send (Inl (HTTPException code reason)) = Http_error code reason"
| "send (Inl e) = Http_error 500 ''Internal Server Error''"

text \<open>
  \<^verbatim>\<open>generate_component\<close>: the body of the \<^verbatim>\<open>try\<close>, then the handler. The
  \<^verbatim>\<open>raise web.HTTPBadRequest(...)\<close> of the clause \<^verbatim>\<open>except ValueError as e\<close> builds its reason
  from \<^verbatim>\<open>str(e)\<close>; what the clause raises, the \<^verbatim>\<open>HTTPBadRequest\<close> or the constructor's
  \<^verbatim>\<open>ValueError\<close>, leaves the inner \<^verbatim>\<open>try\<close> and meets the outer \<^verbatim>\<open>except\<close> clauses.
\<close>

definition generate_component_try ::
  "real \<Rightarrow> LovableMCPServer \<Rightarrow> Request \<Rightarrow> (exn + response) \<times> LovableMCPServer" where
  "generate_component_try now srv req =
     (case validate_request now srv req of
        (Inl e, srv1) \<Rightarrow> (Inl e, srv1)
      | (Inr api_key, srv1) \<Rightarrow>
          (case parse_body req of
             Inl e \<Rightarrow> (Inl e, srv1)
           | Inr data \<Rightarrow>
               (case UIComponent_init data of
                  Inl (ValueError m) \<Rightarrow>
                    (Inl (HTTPException_init 400 (''Invalid component data: '' @ m)), srv1)
                | Inl e \<Rightarrow> (Inl e, srv1)
                | Inr component \<Rightarrow>
                    (json_response
                       (PyDict [(''status'', Plain (JStr ''success'')),
                                (''component'', UIComponent_dict component)]),
                     srv1))))"

definition generate_component ::
  "real \<Rightarrow> LovableMCPServer \<Rightarrow> Request \<Rightarrow> response \<times> LovableMCPServer" where
  "generate_component now srv req =
     (case generate_component_try now srv req of
        (outcome, srv1) \<Rightarrow> (send (except_clauses outcome), srv1))"

text \<open>\<^verbatim>\<open>apply_pattern\<close>.\<close>

definition apply_pattern_try ::
  "real \<Rightarrow> LovableMCPServer \<Rightarrow> Request \<Rightarrow> (exn + response) \<times> LovableMCPServer" where
  "apply_pattern_try now srv req =
     (case validate_request now srv req of
        (Inl e, srv1) \<Rightarrow> (Inl e, srv1)
      | (Inr api_key, srv1) \<Rightarrow>
          (case parse_body req of
             Inl e \<Rightarrow> (Inl e, srv1)
           | Inr data \<Rightarrow>
               (case DesignPattern_init data of
                  Inl (ValueError m) \<Rightarrow>
                    (Inl (HTTPException_init 400 (''Invalid pattern data: '' @ m)), srv1)
                | Inl e \<Rightarrow> (Inl e, srv1)
                | Inr pattern \<Rightarrow>
                    (json_response
                       (PyDict [(''status'', Plain (JStr ''success'')),
                                (''pattern'', DesignPattern_dict pattern)]),
                     srv1))))"

definition apply_pattern ::
  "real \<Rightarrow> LovableMCPServer \<Rightarrow> Request \<Rightarrow> response \<times> LovableMCPServer" where
  "apply_pattern now srv req =
     (case apply_pattern_try now srv req of
        (outcome, srv1) \<Rightarrow> (send (except_clauses outcome), srv1))"

text \<open>
  \<^verbatim>\<open>detect_bugs\<close>. Python's \<^verbatim>\<open>key in data\<close> on the values of \<^verbatim>\<open>json.loads\<close>: a key of a
  dictionary, an element of a list, a substring of a string, and \<^verbatim>\<open>TypeError\<close> on a
  number, a boolean or \<^verbatim>\<open>None\<close>. The \<^verbatim>\<open>or\<close> evaluates its second operand only when the
  first is false.
\<close>

fun is_substring :: "string \<Rightarrow> string \<Rightarrow> bool" where
  "is_substring p [] = (p = [])"
| "is_substring p (c # cs) = (take (length p) (c # cs) = p \<or> is_substring p cs)"

fun py_in :: "string \<Rightarrow> json \<Rightarrow> exn + bool" where
  "py_in key (JObj kvs) = Inr (key \<in> set (map fst kvs))"
| "py_in key (JArr xs) = Inr (JStr key \<in> set xs)"
| "py_in key (JStr s) = Inr (is_substring key s)"
| "py_in key _ = Inl (TypeError ''argument is not iterable'')"

definition detect_bugs_try ::
  "real \<Rightarrow> LovableMCPServer \<Rightarrow> Request \<Rightarrow> (exn + response) \<times> LovableMCPServer" where
  "detect_bugs_try now srv req =
     (case validate_request now srv req of
        (Inl e, srv1) \<Rightarrow> (Inl e, srv1)
      | (Inr api_key, srv1) \<Rightarrow>
          (case parse_body req of
             Inl e \<Rightarrow> (Inl e, srv1)
           | Inr data \<Rightarrow>
               (case py_in ''code'' data of
                  Inl e \<Rightarrow> (Inl e, srv1)
                | Inr has_code \<Rightarrow>
                    if \<not> has_code
                    then (Inl (HTTPException 400 ''Missing required fields: code and context''),
                          srv1)
                    else
                      (case py_in ''context'' data of
                         Inl e \<Rightarrow> (Inl e, srv1)
                       | Inr has_context \<Rightarrow>
                           if \<not> has_context
                           then (Inl (HTTPException 400
                                        ''Missing required fields: code and context''), srv1)
                           else (json_response
                                   (PyDict [(''status'', Plain (JStr ''success'')),
                                            (''issues'', Plain (JArr []))]),
                                 srv1)))))"

definition detect_bugs ::
  "real \<Rightarrow> LovableMCPServer \<Rightarrow> Request \<Rightarrow> response \<times> LovableMCPServer" where
  "detect_bugs now srv req =
     (case detect_bugs_try now srv req of
        (outcome, srv1) \<Rightarrow> (send (except_clauses outcome), srv1))"

text \<open>
  The application that \<^verbatim>\<open>setup_routes\<close> builds: three \<^verbatim>\<open>add_post\<close> routes. aiohttp's router
  resolves the request before any handler runs: a path with no route is answered 404,
  a registered path with another method 405.
\<close>

definition handle ::
  "real \<Rightarrow> LovableMCPServer \<Rightarrow> Request \<Rightarrow> response \<times> LovableMCPServer" where
  "handle now srv req =
     (if path req \<in> {''/generate_component'', ''/apply_pattern'', ''/detect_bugs''}
      then if http_method req \<noteq> ''POST'' then (Http_error 405 ''Method Not Allowed'', srv)
           else if path req = ''/generate_component'' then generate_component now srv req
           else if path req = ''/apply_pattern'' then apply_pattern now srv req
           else detect_bugs now srv req
      else (Http_error 404 ''Not Found'', srv))"

text \<open>
  \<^verbatim>\<open>LovableMCPServer.__init__\<close>: the two settings come from the environment, the limiter
  is built with its default of 60 requests per minute.
\<close>

definition LovableMCPServer_init :: "string \<Rightarrow> string \<Rightarrow> LovableMCPServer" where
  "LovableMCPServer_init ds uf =
     \<lparr>design_system = ds, ui_framework = uf, rate_limiter = RateLimiter_init 60\<rparr>"

section \<open>Well-formed payloads, in the words of the specification\<close>

text \<open>
  The specification's data model: a ComponentRequest has a \<^verbatim>\<open>type\<close> out of
  button, form, card, dialog, table, a map \<^verbatim>\<open>props\<close> and optional maps \<^verbatim>\<open>styles\<close> and
  \<^verbatim>\<open>accessibility\<close>; a PatternRequest has a string \<^verbatim>\<open>pattern_type\<close>, a map \<^verbatim>\<open>context\<close> and
  an optional sequence of strings \<^verbatim>\<open>constraints\<close>. An optional map may be absent or
  \<^verbatim>\<open>null\<close>. Keys beyond these are allowed.
\<close>

fun is_enum_string :: "json option \<Rightarrow> bool" where
  "is_enum_string (Some (JStr s)) = (s \<in> set [''button'', ''form'', ''card'', ''dialog'', ''table''])"
| "is_enum_string _ = False"

fun is_string :: "json option \<Rightarrow> bool" where
  "is_string (Some (JStr s)) = True"
| "is_string _ = False"

fun is_map :: "json option \<Rightarrow> bool" where
  "is_map (Some (JObj kvs)) = True"
| "is_map _ = False"

fun is_optional_map :: "json option \<Rightarrow> bool" where
  "is_optional_map None = True"
| "is_optional_map (Some JNull) = True"
| "is_optional_map (Some (JObj kvs)) = True"
| "is_optional_map _ = False"

fun is_optional_string_sequence :: "json option \<Rightarrow> bool" where
  "is_optional_string_sequence None = True"
| "is_optional_string_sequence (Some (JArr xs)) = list_all (\<lambda>j. is_string (Some j)) xs"
| "is_optional_string_sequence _ = False"

definition well_formed_ComponentRequest :: "(string \<times> json) list \<Rightarrow> bool" where
  "well_formed_ComponentRequest kvs =
     (is_enum_string (map_of kvs ''type'') \<and> is_map (map_of kvs ''props'')
      \<and> is_optional_map (map_of kvs ''styles'')
      \<and> is_optional_map (map_of kvs ''accessibility''))"

definition well_formed_PatternRequest :: "(string \<times> json) list \<Rightarrow> bool" where
  "well_formed_PatternRequest kvs =
     (is_string (map_of kvs ''pattern_type'') \<and> is_map (map_of kvs ''context'')
      \<and> is_optional_string_sequence (map_of kvs ''constraints''))"

section \<open>Properties of the rate limiter\<close>

lemma is_rate_limited_result:
  "fst (is_rate_limited now rl k) =
     (requests_per_minute rl \<le> int (length (filter (\<lambda>t. now - t < 60) (window rl k))))"
proof -
  have "(\<lambda>t. t > now - 60) = (\<lambda>t. now - t < 60)" by (rule ext) linarith
  then show ?thesis by (simp add: is_rate_limited_def Let_def)
qed

lemma is_rate_limited_window:
  "window (snd (is_rate_limited now rl k)) k =
     filter (\<lambda>t. now - t < 60) (window rl k)
       @ (if fst (is_rate_limited now rl k) then [] else [now])"
proof -
  have "(\<lambda>t. t > now - 60) = (\<lambda>t. now - t < 60)" by (rule ext) linarith
  then show ?thesis by (simp add: is_rate_limited_def Let_def window_def)
qed

lemma is_rate_limited_other:
  "k' \<noteq> k \<Longrightarrow> window (snd (is_rate_limited now rl k)) k' = window rl k'"
  by (simp add: is_rate_limited_def Let_def window_def)

lemma is_rate_limited_rpm:
  "requests_per_minute (snd (is_rate_limited now rl k)) = requests_per_minute rl"
  by (simp add: is_rate_limited_def Let_def)

lemma admit_all_Cons_fst:
  "fst (admit_all rl k (t # ts)) =
     fst (is_rate_limited t rl k) # fst (admit_all (snd (is_rate_limited t rl k)) k ts)"
  by (simp split: prod.splits)

lemma admit_all_Cons_snd:
  "snd (admit_all rl k (t # ts)) = snd (admit_all (snd (is_rate_limited t rl k)) k ts)"
  by (simp split: prod.splits)

lemma admit_all_span:
  assumes "\<forall>a\<in>set (w @ ts). \<forall>b\<in>set (w @ ts). a - b < 60"
      and "window rl k = w"
  shows "fst (admit_all rl k ts) =
           map (\<lambda>i. requests_per_minute rl \<le> int (length w + i)) [0..<length ts]
         \<and> window (snd (admit_all rl k ts)) k
             = w @ take (nat (requests_per_minute rl) - length w) ts
         \<and> requests_per_minute (snd (admit_all rl k ts)) = requests_per_minute rl"
  using assms
proof (induction ts arbitrary: rl w)
  case Nil
  then show ?case by simp
next
  case (Cons t ts)
  let ?L = "requests_per_minute rl"
  obtain r rl1 where step: "is_rate_limited t rl k = (r, rl1)" by (cases "is_rate_limited t rl k")
  have keep: "filter (\<lambda>x. t - x < 60) w = w"
    using Cons.prems(1) by (auto intro!: filter_True)
  have r: "r = (?L \<le> int (length w))"
    using is_rate_limited_result [of t rl k] step keep Cons.prems(2) by simp
  have w1: "window rl1 k = w @ (if r then [] else [t])"
    using is_rate_limited_window [of t rl k] step keep Cons.prems(2) by simp
  have L1: "requests_per_minute rl1 = ?L"
    using is_rate_limited_rpm [of t rl k] step by simp
  have span1: "\<forall>a\<in>set ((w @ (if r then [] else [t])) @ ts). \<forall>b\<in>set ((w @ (if r then [] else [t])) @ ts). a - b < 60"
    using Cons.prems(1) by auto
  note IH = Cons.IH [OF span1 w1, unfolded L1]
  have upt: "[0..<length (t # ts)] = 0 # map Suc [0..<length ts]"
    by (metis length_Cons map_Suc_upt upt_conv_Cons zero_less_Suc)
  show ?case
  proof (cases r)
    case True
    with r have "nat ?L - length w = 0" by linarith
    with IH True r step upt show ?thesis
      by (simp add: comp_def admit_all_Cons_fst admit_all_Cons_snd del: upt_Suc admit_all.simps)
  next
    case False
    with r have lt: "int (length w) < ?L" by simp
    then have "nat ?L - length w = Suc (nat ?L - length (w @ [t]))" by simp
    with IH False r step upt show ?thesis
      by (simp add: comp_def admit_all_Cons_fst admit_all_Cons_snd add.assoc add.left_commute
               del: upt_Suc admit_all.simps)
  qed
qed

text \<open>
  Claim C2. Take a key with no recorded timestamp and any sequence of calls for it whose
  clock readings lie within one 60-second span (any two differ by less than 60 seconds).
  With limit \<open>L\<close>, the call number \<open>i\<close> (from 0) is limited exactly when \<open>L \<le> i\<close>: the
  first \<open>L\<close> calls are admitted and call \<open>L + 1\<close> is limited. After the first \<open>n\<close> calls the
  key's window is the first \<open>min n L\<close> readings, so a limited call records nothing.
\<close>

theorem first_L_admitted_then_limited:
  assumes "window rl k = []"
      and "\<forall>a\<in>set ts. \<forall>b\<in>set ts. a - b < 60"
  shows "fst (admit_all rl k ts) = map (\<lambda>i. requests_per_minute rl \<le> int i) [0..<length ts]
         \<and> (\<forall>n. window (snd (admit_all rl k (take n ts))) k
                  = take (min n (nat (requests_per_minute rl))) ts)"
proof -
  have "fst (admit_all rl k ts) = map (\<lambda>i. requests_per_minute rl \<le> int i) [0..<length ts]"
    using admit_all_span [of "[]" ts rl k] assms by simp
  moreover have "window (snd (admit_all rl k (take n ts))) k
                   = take (min n (nat (requests_per_minute rl))) ts" for n
  proof -
    have "\<forall>a\<in>set ([] @ take n ts). \<forall>b\<in>set ([] @ take n ts). a - b < 60"
      using assms(2) by (auto dest: in_set_takeD)
    from admit_all_span [OF this assms(1)] show ?thesis
      by (simp add: min.commute)
  qed
  ultimately show ?thesis by blast
qed

theorem first_L_admitted_then_limited_witness:
  "window (RateLimiter_init 2) ''k1'' = []
   \<and> fst (admit_all (RateLimiter_init 2) ''k1'' [0, 1, 2]) = [False, False, True]
   \<and> window (snd (admit_all (RateLimiter_init 2) ''k1'' (take 2 [0, 1, 2]))) ''k1'' = [0, 1]
   \<and> window (snd (admit_all (RateLimiter_init 2) ''k1'' (take 3 [0, 1, 2]))) ''k1'' = [0, 1]"
proof -
  have w: "window (RateLimiter_init 2) ''k1'' = []"
    by (simp add: window_def RateLimiter_init_def)
  have sp: "\<forall>a\<in>set [0, 1, 2 :: real]. \<forall>b\<in>set [0, 1, 2]. a - b < 60"
    by simp
  have up: "[0..<3] = [0, 1, 2]" by (simp add: upt_rec)
  have r: "requests_per_minute (RateLimiter_init 2) = 2" by (simp add: RateLimiter_init_def)
  note T = first_L_admitted_then_limited [OF w sp]
  from T have A: "fst (admit_all (RateLimiter_init 2) ''k1'' [0, 1, 2]) = [False, False, True]"
    by (simp add: r up del: admit_all.simps)
  from T [THEN conjunct2, rule_format, of 2] T [THEN conjunct2, rule_format, of 3] A w sp
  show ?thesis
    by (simp add: r del: admit_all.simps)
qed

text \<open>
  Claim C6. A call at \<open>now\<close> counts, and keeps, exactly the recorded timestamps of age
  strictly less than 60 seconds; a timestamp of age exactly 60 seconds, \<open>now - 60\<close>, is
  not in the window after the call.
\<close>

theorem boundary_timestamp_is_pruned:
  "fst (is_rate_limited now rl k) =
      (requests_per_minute rl \<le> int (length (filter (\<lambda>t. now - t < 60) (window rl k))))
   \<and> window (snd (is_rate_limited now rl k)) k =
        filter (\<lambda>t. now - t < 60) (window rl k)
          @ (if fst (is_rate_limited now rl k) then [] else [now])
   \<and> now - 60 \<notin> set (window (snd (is_rate_limited now rl k)) k)"
  by (simp add: is_rate_limited_result is_rate_limited_window)

theorem boundary_timestamp_is_pruned_witness:
  "fst (is_rate_limited 60 (\<lparr>requests_per_minute = 1, requests = [''k1'' \<mapsto> [0]]\<rparr>) ''k1'') = False
   \<and> window (snd (is_rate_limited 60 (\<lparr>requests_per_minute = 1, requests = [''k1'' \<mapsto> [0]]\<rparr>) ''k1'')) ''k1'' = [60]
   \<and> fst (is_rate_limited 59 (\<lparr>requests_per_minute = 1, requests = [''k1'' \<mapsto> [0]]\<rparr>) ''k1'') = True"
  using boundary_timestamp_is_pruned [of 60 "\<lparr>requests_per_minute = 1, requests = [''k1'' \<mapsto> [0]]\<rparr>" "''k1''"]
        boundary_timestamp_is_pruned [of 59 "\<lparr>requests_per_minute = 1, requests = [''k1'' \<mapsto> [0]]\<rparr>" "''k1''"]
  by (simp add: window_def)

lemma within_limit_step:
  assumes "within_limit rl"
  shows "within_limit (snd (is_rate_limited now rl k))"
  unfolding within_limit_def
proof
  fix k'
  let ?rl = "snd (is_rate_limited now rl k)"
  have old: "int (length (window rl k')) \<le> max 0 (requests_per_minute rl)" for k'
    using assms by (simp add: within_limit_def)
  show "int (length (window ?rl k')) \<le> max 0 (requests_per_minute ?rl)"
  proof (cases "k' = k")
    case False
    then show ?thesis
      using old [of k'] by (simp add: is_rate_limited_other is_rate_limited_rpm)
  next
    case True
    have "length (filter (\<lambda>t. now - t < 60) (window rl k)) \<le> length (window rl k)"
      by (rule length_filter_le)
    then have le: "int (length (filter (\<lambda>t. now - t < 60) (window rl k)))
                     \<le> max 0 (requests_per_minute rl)"
      using old [of k] by linarith
    show ?thesis
    proof (cases "fst (is_rate_limited now rl k)")
      case True
      with le \<open>k' = k\<close> show ?thesis
        by (simp add: is_rate_limited_window is_rate_limited_rpm)
    next
      case False
      then have "int (length (filter (\<lambda>t. now - t < 60) (window rl k))) < requests_per_minute rl"
        by (simp add: is_rate_limited_result)
      with False \<open>k' = k\<close> show ?thesis
        by (simp add: is_rate_limited_window is_rate_limited_rpm)
    qed
  qed
qed

lemma within_limit_init: "within_limit (RateLimiter_init rpm)"
  by (simp add: within_limit_def RateLimiter_init_def window_def)

lemma within_limit_run_calls: "within_limit rl \<Longrightarrow> within_limit (run_calls rl cs)"
  by (induction rl cs rule: run_calls.induct) (simp_all add: within_limit_step)

text \<open>
  Claim C7. In every state the limiter reaches from its construction, a key whose
  oldest recorded timestamp is more than 60 seconds older than \<open>now\<close> is admitted at
  \<open>now\<close>, whatever the earlier calls returned.
\<close>

theorem admitted_again_after_window_slides:
  assumes "rl = run_calls (RateLimiter_init rpm) cs"
      and "window rl k \<noteq> []"
      and "now - Min (set (window rl k)) > 60"
  shows "fst (is_rate_limited now rl k) = False"
proof -
  let ?w = "window rl k"
  have "within_limit rl"
    using assms(1) by (simp add: within_limit_run_calls within_limit_init)
  then have len: "int (length ?w) \<le> max 0 (requests_per_minute rl)"
    by (simp add: within_limit_def)
  have "Min (set ?w) \<in> set ?w"
    using assms(2) by (intro Min_in) simp_all
  moreover have "\<not> now - Min (set ?w) < 60"
    using assms(3) by simp
  ultimately have "length (filter (\<lambda>t. now - t < 60) ?w) < length ?w"
    by (rule length_filter_less)
  with len show ?thesis
    by (simp add: is_rate_limited_result)
qed

lemma scenario_run:
  "window (run_calls (RateLimiter_init 2) [(''k1'', 0), (''k1'', 1), (''k1'', 2)]) ''k1'' = [0, 1]"
  by (simp add: RateLimiter_init_def is_rate_limited_def window_def Let_def)

theorem admitted_again_after_window_slides_witness:
  "fst (is_rate_limited 2 (run_calls (RateLimiter_init 2) [(''k1'', 0), (''k1'', 1)]) ''k1'') = True
   \<and> window (run_calls (RateLimiter_init 2) [(''k1'', 0), (''k1'', 1), (''k1'', 2)]) ''k1'' \<noteq> []
   \<and> 61 - Min (set (window (run_calls (RateLimiter_init 2) [(''k1'', 0), (''k1'', 1), (''k1'', 2)]) ''k1'')) > 60
   \<and> fst (is_rate_limited 61 (run_calls (RateLimiter_init 2) [(''k1'', 0), (''k1'', 1), (''k1'', 2)]) ''k1'') = False"
proof -
  let ?rl = "run_calls (RateLimiter_init 2) [(''k1'', 0), (''k1'', 1), (''k1'', 2)]"
  have a: "window ?rl ''k1'' \<noteq> []" by (simp only: scenario_run) simp
  have b: "61 - Min (set (window ?rl ''k1'')) > 60" by (simp only: scenario_run) simp
  have c: "fst (is_rate_limited 2 (run_calls (RateLimiter_init 2) [(''k1'', 0), (''k1'', 1)]) ''k1'') = True"
    by (simp add: RateLimiter_init_def is_rate_limited_def window_def Let_def)
  from admitted_again_after_window_slides [OF refl a b] a b c show ?thesis by blast
qed

text \<open>
  Claim C8. For every call: the pruned sequence, and the sequence the call leaves for
  the key, hold only timestamps later than \<open>now - 60\<close> (and none later than \<open>now\<close>, if none
  was before the call); after an admitted call the sequence is no longer than the limit;
  the limit and the windows of the other keys are unchanged.
\<close>

theorem rate_window_invariant:
  "(\<forall>t\<in>set (filter (\<lambda>t. t > now - 60) (window rl k)). now - 60 < t)
   \<and> window (snd (is_rate_limited now rl k)) k =
        filter (\<lambda>t. t > now - 60) (window rl k)
          @ (if fst (is_rate_limited now rl k) then [] else [now])
   \<and> (\<forall>t\<in>set (window (snd (is_rate_limited now rl k)) k). now - 60 < t)
   \<and> ((\<forall>t\<in>set (window rl k). t \<le> now)
        \<longrightarrow> (\<forall>t\<in>set (window (snd (is_rate_limited now rl k)) k). t \<le> now))
   \<and> (\<not> fst (is_rate_limited now rl k)
        \<longrightarrow> int (length (window (snd (is_rate_limited now rl k)) k))
              \<le> requests_per_minute (snd (is_rate_limited now rl k)))
   \<and> requests_per_minute (snd (is_rate_limited now rl k)) = requests_per_minute rl
   \<and> (\<forall>k'. k' \<noteq> k \<longrightarrow> window (snd (is_rate_limited now rl k)) k' = window rl k')"
proof -
  have eq: "(\<lambda>t. t > now - 60) = (\<lambda>t. now - t < 60)" by (rule ext) linarith
  show ?thesis
    unfolding eq
    by (auto simp: is_rate_limited_window is_rate_limited_result is_rate_limited_rpm
                   is_rate_limited_other)
qed

theorem rate_window_invariant_witness:
  "window \<lparr>requests_per_minute = 2, requests = [''k1'' \<mapsto> [1, 2]]\<rparr> ''k1'' = [1, 2]
   \<and> \<not> fst (is_rate_limited 61 \<lparr>requests_per_minute = 2, requests = [''k1'' \<mapsto> [1, 2]]\<rparr> ''k1'')
   \<and> window (snd (is_rate_limited 61 \<lparr>requests_per_minute = 2, requests = [''k1'' \<mapsto> [1, 2]]\<rparr> ''k1''))
         ''k1'' = [2, 61]
   \<and> window (snd (is_rate_limited 61 \<lparr>requests_per_minute = 2, requests = [''k1'' \<mapsto> [1, 2]]\<rparr> ''k1''))
         ''k2'' = []"
proof -
  let ?rl = "\<lparr>requests_per_minute = 2, requests = [''k1'' \<mapsto> [1, 2 :: real]]\<rparr>"
  have w: "window ?rl ''k1'' = [1, 2]" and w2: "window ?rl ''k2'' = []"
    by (simp_all add: window_def)
  have r: "\<not> fst (is_rate_limited 61 ?rl ''k1'')"
    by (simp add: is_rate_limited_result w)
  from rate_window_invariant [of 61 ?rl "''k1''"] w w2 r show ?thesis
    by simp
qed

section \<open>Properties of the request pipeline\<close>

subsection \<open>Authentication\<close>

lemma validate_request_no_key:
  assumes "map_of (headers req) ''X-API-Key'' = None \<or> map_of (headers req) ''X-API-Key'' = Some []"
  shows "validate_request now srv req = (Inl (HTTPException 401 ''API key required''), srv)"
  using assms by (auto simp: validate_request_def)

text \<open>
  Claim C4, as amended. A request that reaches one of the three handlers with the
  \<^verbatim>\<open>X-API-Key\<close> header absent or empty is answered 401 with the reason
  \<^verbatim>\<open>API key required\<close>, and the server, so the rate limiter, is left as it was; the answer
  does not depend on the body, which is never read. This holds for every \<^verbatim>\<open>POST\<close> to
  one of the three registered paths. The router runs before the handler.
\<close>

theorem missing_key_unauthorized:
  assumes "map_of (headers req) ''X-API-Key'' = None \<or> map_of (headers req) ''X-API-Key'' = Some []"
  shows "generate_component now srv req = (Http_error 401 ''API key required'', srv)
       \<and> apply_pattern now srv req = (Http_error 401 ''API key required'', srv)
       \<and> detect_bugs now srv req = (Http_error 401 ''API key required'', srv)
       \<and> (http_method req = ''POST''
            \<and> path req \<in> {''/generate_component'', ''/apply_pattern'', ''/detect_bugs''}
          \<longrightarrow> handle now srv req = (Http_error 401 ''API key required'', srv))"
proof -
  note v = validate_request_no_key [OF assms, of now srv]
  have g: "generate_component now srv req = (Http_error 401 ''API key required'', srv)"
    by (simp add: generate_component_def generate_component_try_def v)
  have a: "apply_pattern now srv req = (Http_error 401 ''API key required'', srv)"
    by (simp add: apply_pattern_def apply_pattern_try_def v)
  have d: "detect_bugs now srv req = (Http_error 401 ''API key required'', srv)"
    by (simp add: detect_bugs_def detect_bugs_try_def v)
  from g a d show ?thesis by (auto simp: handle_def)
qed

theorem missing_key_unauthorized_witness:
  "(map_of (headers \<lparr>http_method = ''POST'', path = ''/generate_component'', headers = [],
                     json_result = Inr (JObj [])\<rparr>) ''X-API-Key'' = None)
   \<and> handle 0 (LovableMCPServer_init ''default'' ''react'')
         \<lparr>http_method = ''POST'', path = ''/generate_component'', headers = [],
          json_result = Inr (JObj [])\<rparr>
       = (Http_error 401 ''API key required'', LovableMCPServer_init ''default'' ''react'')"
proof -
  let ?req = "\<lparr>http_method = ''POST'', path = ''/generate_component'', headers = [],
               json_result = Inr (JObj [])\<rparr>"
  have h: "map_of (headers ?req) ''X-API-Key'' = None \<or> map_of (headers ?req) ''X-API-Key'' = Some []"
    by simp
  from missing_key_unauthorized [OF h, of 0 "LovableMCPServer_init ''default'' ''react''"]
  show ?thesis by simp
qed

text \<open>
  Claim C4 as stated fails: a request without the header to a path that has no route is
  answered 404, not 401.
\<close>

theorem unmatched_path_counterexample:
  "map_of (headers \<lparr>http_method = ''POST'', path = ''/unknown_path'', headers = [],
                    json_result = Inr (JObj [])\<rparr>) ''X-API-Key'' = None
   \<and> status (fst (handle 0 (LovableMCPServer_init ''default'' ''react'')
          \<lparr>http_method = ''POST'', path = ''/unknown_path'', headers = [],
           json_result = Inr (JObj [])\<rparr>)) = 404"
  by (simp add: handle_def)

subsection \<open>Bug detection\<close>

lemma validate_request_fresh:
  "validate_request 0 (LovableMCPServer_init ''default'' ''react'')
      \<lparr>http_method = m, path = p, headers = [(''X-API-Key'', ''test_key'')], json_result = j\<rparr>
   = (Inr ''test_key'',
      \<lparr>design_system = ''default'', ui_framework = ''react'',
       rate_limiter = \<lparr>requests_per_minute = 60, requests = [''test_key'' \<mapsto> [0]]\<rparr>\<rparr>)"
  by (simp add: validate_request_def LovableMCPServer_init_def RateLimiter_init_def
                is_rate_limited_def window_def Let_def)

text \<open>
  Claim C10. A request to \<^verbatim>\<open>detect_bugs\<close> that passes \<^verbatim>\<open>validate_request\<close> and whose body
  is a JSON object with the keys \<^verbatim>\<open>code\<close> and \<^verbatim>\<open>context\<close>, of any values, is answered 200
  with the document \<^verbatim>\<open>{"status": "success", "issues": []}\<close>.
\<close>

theorem detect_bugs_success:
  assumes "validate_request now srv req = (Inr key, srv1)"
      and "json_result req = Inr (JObj kvs)"
      and "''code'' \<in> fst ` set kvs" and "''context'' \<in> fst ` set kvs"
  shows "detect_bugs now srv req =
           (Json_response (JObj [(''status'', JStr ''success''), (''issues'', JArr [])]), srv1)"
  using assms by (simp add: detect_bugs_def detect_bugs_try_def parse_body_def json_response_def)

theorem detect_bugs_success_witness:
  "validate_request 0 (LovableMCPServer_init ''default'' ''react'')
      \<lparr>http_method = ''POST'', path = ''/detect_bugs'', headers = [(''X-API-Key'', ''test_key'')],
       json_result = Inr (JObj [(''code'', JInt 5), (''context'', JNull)])\<rparr>
     = (Inr ''test_key'',
        \<lparr>design_system = ''default'', ui_framework = ''react'',
         rate_limiter = \<lparr>requests_per_minute = 60, requests = [''test_key'' \<mapsto> [0]]\<rparr>\<rparr>)
   \<and> ''code'' \<in> fst ` set [(''code'', JInt 5), (''context'', JNull)]
   \<and> ''context'' \<in> fst ` set [(''code'', JInt 5), (''context'', JNull)]
   \<and> fst (detect_bugs 0 (LovableMCPServer_init ''default'' ''react'')
      \<lparr>http_method = ''POST'', path = ''/detect_bugs'', headers = [(''X-API-Key'', ''test_key'')],
       json_result = Inr (JObj [(''code'', JInt 5), (''context'', JNull)])\<rparr>)
     = Json_response (JObj [(''status'', JStr ''success''), (''issues'', JArr [])])"
proof -
  let ?kvs = "[(''code'', JInt 5), (''context'', JNull)]"
  let ?req = "\<lparr>http_method = ''POST'', path = ''/detect_bugs'', headers = [(''X-API-Key'', ''test_key'')],
       json_result = Inr (JObj ?kvs)\<rparr>"
  note v = validate_request_fresh [of "''POST''" "''/detect_bugs''" "Inr (JObj ?kvs)"]
  have j: "json_result ?req = Inr (JObj ?kvs)" by simp
  have c: "''code'' \<in> fst ` set ?kvs" and x: "''context'' \<in> fst ` set ?kvs" by simp_all
  from detect_bugs_success [OF v j c x] v c x show ?thesis by simp
qed

subsection \<open>Schema validation\<close>

lemma validate_enum_iff: "(validate_enum x \<noteq> None) = is_enum_string x"
  by (cases x rule: is_enum_string.cases)
     (auto simp: ComponentType_of_value_def find_None_iff)

lemma validate_str_iff: "(validate_str x \<noteq> None) = is_string x"
  by (cases x rule: is_string.cases) auto

lemma validate_dict_iff: "(validate_dict x \<noteq> None) = is_map x"
  by (cases x rule: is_map.cases) auto

lemma validate_dict_or_None_iff: "(validate_dict_or_None x \<noteq> None) = is_optional_map x"
  by (cases x rule: is_optional_map.cases) auto

lemma those_the_str_iff:
  "(those (map the_str xs) \<noteq> None) = list_all (\<lambda>j. is_string (Some j)) xs"
proof (induction xs)
  case Nil
  then show ?case by simp
next
  case (Cons x xs)
  then show ?case by (cases x) (auto split: option.splits)
qed

lemma validate_str_list_iff: "(validate_str_list x \<noteq> None) = is_optional_string_sequence x"
  using those_the_str_iff by (cases x rule: is_optional_string_sequence.cases) auto

lemma UIComponent_init_cases:
  "(well_formed_ComponentRequest kvs \<and> (\<exists>c. UIComponent_init (JObj kvs) = Inr c))
   \<or> (\<not> well_formed_ComponentRequest kvs \<and> (\<exists>m. UIComponent_init (JObj kvs) = Inl (ValueError m)))"
  unfolding well_formed_ComponentRequest_def
            validate_enum_iff [symmetric] validate_dict_iff [symmetric]
            validate_dict_or_None_iff [symmetric]
  by (auto simp: UIComponent_init_def split: option.splits)

lemma DesignPattern_init_cases:
  "(well_formed_PatternRequest kvs \<and> (\<exists>p. DesignPattern_init (JObj kvs) = Inr p))
   \<or> (\<not> well_formed_PatternRequest kvs \<and> (\<exists>m. DesignPattern_init (JObj kvs) = Inl (ValueError m)))"
  unfolding well_formed_PatternRequest_def
            validate_str_iff [symmetric] validate_dict_iff [symmetric]
            validate_str_list_iff [symmetric]
  by (auto simp: DesignPattern_init_def split: option.splits)


lemma dumps_component:
  "json_response (PyDict [(''status'', Plain (JStr ''success'')), (''component'', UIComponent_dict c)])
   = Inl (TypeError ''Object of type ComponentType is not JSON serializable'')"
  by (simp add: json_response_def UIComponent_dict_def)

lemma validation_message_newline:
  "failed \<noteq> [] \<Longrightarrow> CHR 0x0A \<in> set (validation_message model failed)"
  by (cases failed) (simp_all add: validation_message_def)

lemma UIComponent_init_newline:
  "UIComponent_init data = Inl (ValueError m) \<Longrightarrow> CHR 0x0A \<in> set m"
  by (auto simp: UIComponent_init_def validation_message_newline
           split: json.splits option.splits)

lemma DesignPattern_init_newline:
  "DesignPattern_init data = Inl (ValueError m) \<Longrightarrow> CHR 0x0A \<in> set m"
  by (auto simp: DesignPattern_init_def validation_message_newline
           split: json.splits option.splits)

lemma HTTPException_init_newline:
  "CHR 0x0A \<in> set m \<Longrightarrow>
     HTTPException_init code (prefix @ m)
       = ValueError (''Reason cannot contain '' @ [CHR 0x5C, CHR ''n''])"
  by (simp add: HTTPException_init_def)

lemma HTTPException_init_status:
  "HTTPException_init code reason = HTTPException code1 reason1 \<Longrightarrow> code1 = code"
  by (simp add: HTTPException_init_def split: if_splits)

text \<open>
  The reasons that the source writes as literals are accepted by the constructor.
\<close>

lemma literal_reasons_accepted:
  "HTTPException_init 401 ''API key required'' = HTTPException 401 ''API key required''"
  "HTTPException_init 429 ''Rate limit exceeded. Please try again later.''
     = HTTPException 429 ''Rate limit exceeded. Please try again later.''"
  "HTTPException_init 400 ''Invalid JSON payload'' = HTTPException 400 ''Invalid JSON payload''"
  "HTTPException_init 400 ''Missing required fields: code and context''
     = HTTPException 400 ''Missing required fields: code and context''"
  "HTTPException_init 500 ''Internal server error occurred''
     = HTTPException 500 ''Internal server error occurred''"
  by (simp_all add: HTTPException_init_def)

text \<open>
  A schema violation in \<^verbatim>\<open>generate_component\<close> or \<^verbatim>\<open>apply_pattern\<close>: the reason of the
  \<^verbatim>\<open>HTTPBadRequest\<close> has the lines of the \<^verbatim>\<open>ValidationError\<close>, the constructor raises
  \<^verbatim>\<open>ValueError\<close>, and the outer \<^verbatim>\<open>except Exception\<close> answers 500.
\<close>

lemma generate_component_schema_violation:
  assumes "validate_request now srv req = (Inr key, srv1)"
      and "json_result req = Inr (JObj kvs)"
      and "\<not> well_formed_ComponentRequest kvs"
  shows "generate_component now srv req
           = (Http_error 500 ''Internal server error occurred'', srv1)"
proof -
  from UIComponent_init_cases [of kvs] assms(3)
  obtain m where m: "UIComponent_init (JObj kvs) = Inl (ValueError m)" by blast
  then have "CHR 0x0A \<in> set m" by (rule UIComponent_init_newline)
  then have "HTTPException_init 400 (''Invalid component data: '' @ m)
               = ValueError (''Reason cannot contain '' @ [CHR 0x5C, CHR ''n''])"
    by (rule HTTPException_init_newline)
  with m assms(1,2) show ?thesis
    by (simp add: generate_component_def generate_component_try_def parse_body_def)
qed

lemma apply_pattern_schema_violation:
  assumes "validate_request now srv req = (Inr key, srv1)"
      and "json_result req = Inr (JObj kvs)"
      and "\<not> well_formed_PatternRequest kvs"
  shows "apply_pattern now srv req
           = (Http_error 500 ''Internal server error occurred'', srv1)"
proof -
  from DesignPattern_init_cases [of kvs] assms(3)
  obtain m where m: "DesignPattern_init (JObj kvs) = Inl (ValueError m)" by blast
  then have "CHR 0x0A \<in> set m" by (rule DesignPattern_init_newline)
  then have "HTTPException_init 400 (''Invalid pattern data: '' @ m)
               = ValueError (''Reason cannot contain '' @ [CHR 0x5C, CHR ''n''])"
    by (rule HTTPException_init_newline)
  with m assms(1,2) show ?thesis
    by (simp add: apply_pattern_def apply_pattern_try_def parse_body_def)
qed





subsection \<open>Internal faults\<close>

lemma send_except_clauses_fault:
  "\<not> is_HTTPException e \<Longrightarrow>
     send (except_clauses (Inl e)) = Http_error 500 ''Internal server error occurred''"
  by (cases e) simp_all

lemma send_except_clauses_500:
  assumes "status (send (except_clauses outcome)) = 500"
      and "\<forall>reason. outcome \<noteq> Inl (HTTPException 500 reason)"
      and "\<forall>body. outcome \<noteq> Inr (Http_error 500 body)"
  shows "send (except_clauses outcome) = Http_error 500 ''Internal server error occurred''"
proof (cases outcome)
  case (Inl e)
  with assms show ?thesis by (cases e) auto
next
  case (Inr resp)
  with assms show ?thesis by (cases resp) auto
qed

lemma json_response_not_500: "json_response data \<noteq> Inr (Http_error c r)"
  by (simp add: json_response_def split: option.splits)

lemma json_response_not_HTTP: "json_response data \<noteq> Inl (HTTPException c r)"
  by (simp add: json_response_def split: option.splits)

lemma validate_request_HTTP:
  "validate_request now srv req = (Inl (HTTPException c r), srv1) \<Longrightarrow> c = 401 \<or> c = 429"
  by (auto simp: validate_request_def split: option.splits prod.splits if_splits)

lemma parse_body_HTTP:
  "parse_body req = Inl (HTTPException c r) \<Longrightarrow>
     c = 400 \<or> json_result req = Inl (HTTPException c r)"
  by (auto simp: parse_body_def split: sum.splits exn.splits)

lemma UIComponent_init_HTTP: "UIComponent_init data \<noteq> Inl (HTTPException c r)"
  by (auto simp: UIComponent_init_def split: json.splits option.splits)

lemma DesignPattern_init_HTTP: "DesignPattern_init data \<noteq> Inl (HTTPException c r)"
  by (auto simp: DesignPattern_init_def split: json.splits option.splits)

lemma py_in_HTTP: "py_in key data \<noteq> Inl (HTTPException c r)"
  by (cases data) simp_all

lemma generate_component_try_not_500:
  assumes "\<forall>r. json_result req \<noteq> Inl (HTTPException 500 r)"
  shows "fst (generate_component_try now srv req) \<noteq> Inl (HTTPException 500 r)"
    and "fst (generate_component_try now srv req) \<noteq> Inr (Http_error 500 r)"
  using assms
  by (auto simp: generate_component_try_def json_response_not_500 json_response_not_HTTP
                 UIComponent_init_HTTP
           split: prod.splits sum.splits exn.splits
           dest: validate_request_HTTP parse_body_HTTP HTTPException_init_status)

lemma apply_pattern_try_not_500:
  assumes "\<forall>r. json_result req \<noteq> Inl (HTTPException 500 r)"
  shows "fst (apply_pattern_try now srv req) \<noteq> Inl (HTTPException 500 r)"
    and "fst (apply_pattern_try now srv req) \<noteq> Inr (Http_error 500 r)"
  using assms
  by (auto simp: apply_pattern_try_def json_response_not_500 json_response_not_HTTP
                 DesignPattern_init_HTTP
           split: prod.splits sum.splits exn.splits
           dest: validate_request_HTTP parse_body_HTTP HTTPException_init_status)

lemma detect_bugs_try_not_500:
  assumes "\<forall>r. json_result req \<noteq> Inl (HTTPException 500 r)"
  shows "fst (detect_bugs_try now srv req) \<noteq> Inl (HTTPException 500 r)"
    and "fst (detect_bugs_try now srv req) \<noteq> Inr (Http_error 500 r)"
  using assms
  by (auto simp: detect_bugs_try_def json_response_not_500 json_response_not_HTTP py_in_HTTP
           split: prod.splits sum.splits exn.splits if_splits
           dest: validate_request_HTTP parse_body_HTTP)

lemma parse_body_fault:
  "json_result req = Inl e \<Longrightarrow> \<not> is_ValueError e \<Longrightarrow> parse_body req = Inl e"
  by (cases e) (simp_all add: parse_body_def)

text \<open>
  Claim C9. Whatever exception other than an \<^verbatim>\<open>HTTPException\<close> leaves the \<^verbatim>\<open>try\<close> body of
  a handler, at any stage and with any message, the handler answers 500 with the reason
  \<^verbatim>\<open>Internal server error occurred\<close>. Such exceptions do arise: an exception of
  \<^verbatim>\<open>request.json()\<close> that is not a \<^verbatim>\<open>ValueError\<close>, and the \<^verbatim>\<open>ValueError\<close> of the
  \<^verbatim>\<open>HTTPBadRequest\<close> constructor on every schema violation of \<^verbatim>\<open>generate_component\<close> and
  \<^verbatim>\<open>apply_pattern\<close>; each is answered with exactly that response. And every answer with
  status 500 that a handler gives carries exactly that reason (unless \<^verbatim>\<open>request.json()\<close>
  itself raised an \<^verbatim>\<open>HTTPException\<close> of status 500, which the handlers pass on).
\<close>

theorem internal_fault_generic_500:
  "(fst (generate_component_try now srv req) = Inl e1 \<and> \<not> is_HTTPException e1
      \<longrightarrow> fst (generate_component now srv req) = Http_error 500 ''Internal server error occurred'')
   \<and> (fst (apply_pattern_try now srv req) = Inl e2 \<and> \<not> is_HTTPException e2
      \<longrightarrow> fst (apply_pattern now srv req) = Http_error 500 ''Internal server error occurred'')
   \<and> (fst (detect_bugs_try now srv req) = Inl e3 \<and> \<not> is_HTTPException e3
      \<longrightarrow> fst (detect_bugs now srv req) = Http_error 500 ''Internal server error occurred'')
   \<and> (validate_request now srv req = (Inr key, srv1) \<and> json_result req = Inl e
      \<and> \<not> is_HTTPException e \<and> \<not> is_ValueError e
     \<longrightarrow> generate_component now srv req = (Http_error 500 ''Internal server error occurred'', srv1)
       \<and> apply_pattern now srv req = (Http_error 500 ''Internal server error occurred'', srv1)
       \<and> detect_bugs now srv req = (Http_error 500 ''Internal server error occurred'', srv1))
   \<and> (validate_request now srv req = (Inr key, srv1) \<and> json_result req = Inr (JObj kvs)
      \<and> \<not> well_formed_ComponentRequest kvs
     \<longrightarrow> generate_component now srv req = (Http_error 500 ''Internal server error occurred'', srv1))
   \<and> (validate_request now srv req = (Inr key, srv1) \<and> json_result req = Inr (JObj kvs)
      \<and> \<not> well_formed_PatternRequest kvs
     \<longrightarrow> apply_pattern now srv req = (Http_error 500 ''Internal server error occurred'', srv1))
   \<and> ((\<forall>r. json_result req \<noteq> Inl (HTTPException 500 r)) \<longrightarrow>
        (\<forall>resp \<in> {fst (generate_component now srv req), fst (apply_pattern now srv req),
                   fst (detect_bugs now srv req)}.
           status resp = 500 \<longrightarrow> resp = Http_error 500 ''Internal server error occurred''))"
proof (intro conjI impI)
  assume "fst (generate_component_try now srv req) = Inl e1 \<and> \<not> is_HTTPException e1"
  then show "fst (generate_component now srv req) = Http_error 500 ''Internal server error occurred''"
    by (auto simp: generate_component_def send_except_clauses_fault split: prod.splits)
next
  assume "fst (apply_pattern_try now srv req) = Inl e2 \<and> \<not> is_HTTPException e2"
  then show "fst (apply_pattern now srv req) = Http_error 500 ''Internal server error occurred''"
    by (auto simp: apply_pattern_def send_except_clauses_fault split: prod.splits)
next
  assume "fst (detect_bugs_try now srv req) = Inl e3 \<and> \<not> is_HTTPException e3"
  then show "fst (detect_bugs now srv req) = Http_error 500 ''Internal server error occurred''"
    by (auto simp: detect_bugs_def send_except_clauses_fault split: prod.splits)
next
  assume a: "validate_request now srv req = (Inr key, srv1) \<and> json_result req = Inl e
      \<and> \<not> is_HTTPException e \<and> \<not> is_ValueError e"
  then have p: "parse_body req = Inl e" by (simp add: parse_body_fault)
  from a have s: "send (except_clauses (Inl e)) = Http_error 500 ''Internal server error occurred''"
    by (simp add: send_except_clauses_fault)
  from a p s show "generate_component now srv req = (Http_error 500 ''Internal server error occurred'', srv1)"
    by (simp add: generate_component_def generate_component_try_def)
  from a p s show "apply_pattern now srv req = (Http_error 500 ''Internal server error occurred'', srv1)"
    by (simp add: apply_pattern_def apply_pattern_try_def)
  from a p s show "detect_bugs now srv req = (Http_error 500 ''Internal server error occurred'', srv1)"
    by (simp add: detect_bugs_def detect_bugs_try_def)
next
  assume "validate_request now srv req = (Inr key, srv1) \<and> json_result req = Inr (JObj kvs)
      \<and> \<not> well_formed_ComponentRequest kvs"
  then show "generate_component now srv req = (Http_error 500 ''Internal server error occurred'', srv1)"
    using generate_component_schema_violation [of now srv req key srv1 kvs] by blast
next
  assume "validate_request now srv req = (Inr key, srv1) \<and> json_result req = Inr (JObj kvs)
      \<and> \<not> well_formed_PatternRequest kvs"
  then show "apply_pattern now srv req = (Http_error 500 ''Internal server error occurred'', srv1)"
    using apply_pattern_schema_violation [of now srv req key srv1 kvs] by blast
next
  assume j: "\<forall>r. json_result req \<noteq> Inl (HTTPException 500 r)"
  have g: "status (fst (generate_component now srv req)) = 500 \<Longrightarrow>
        fst (generate_component now srv req) = Http_error 500 ''Internal server error occurred''"
    using send_except_clauses_500 [of "fst (generate_component_try now srv req)"]
          generate_component_try_not_500 [OF j, of now srv]
    by (simp add: generate_component_def split: prod.splits)
  have a: "status (fst (apply_pattern now srv req)) = 500 \<Longrightarrow>
        fst (apply_pattern now srv req) = Http_error 500 ''Internal server error occurred''"
    using send_except_clauses_500 [of "fst (apply_pattern_try now srv req)"]
          apply_pattern_try_not_500 [OF j, of now srv]
    by (simp add: apply_pattern_def split: prod.splits)
  have d: "status (fst (detect_bugs now srv req)) = 500 \<Longrightarrow>
        fst (detect_bugs now srv req) = Http_error 500 ''Internal server error occurred''"
    using send_except_clauses_500 [of "fst (detect_bugs_try now srv req)"]
          detect_bugs_try_not_500 [OF j, of now srv]
    by (simp add: detect_bugs_def split: prod.splits)
  from g a d show "\<forall>resp \<in> {fst (generate_component now srv req), fst (apply_pattern now srv req),
                   fst (detect_bugs now srv req)}.
           status resp = 500 \<longrightarrow> resp = Http_error 500 ''Internal server error occurred''"
    by blast
qed

lemma not_a_type_try:
  "fst (generate_component_try 0 (LovableMCPServer_init ''default'' ''react'')
         \<lparr>http_method = ''POST'', path = ''/generate_component'',
          headers = [(''X-API-Key'', ''test_key'')],
          json_result = Inr (JObj [(''type'', JStr ''not_a_type''), (''props'', JObj [])])\<rparr>)
   = Inl (ValueError (''Reason cannot contain '' @ [CHR 0x5C, CHR ''n'']))"
  by (simp add: generate_component_try_def validate_request_fresh parse_body_def
                UIComponent_init_def ComponentType_of_value_def validation_message_def
                HTTPException_init_def)

theorem internal_fault_generic_500_witness:
  "fst (generate_component_try 0 (LovableMCPServer_init ''default'' ''react'')
         \<lparr>http_method = ''POST'', path = ''/generate_component'',
          headers = [(''X-API-Key'', ''test_key'')],
          json_result = Inr (JObj [(''type'', JStr ''not_a_type''), (''props'', JObj [])])\<rparr>)
     = Inl (ValueError (''Reason cannot contain '' @ [CHR 0x5C, CHR ''n'']))
   \<and> \<not> is_HTTPException (ValueError (''Reason cannot contain '' @ [CHR 0x5C, CHR ''n'']))
   \<and> fst (generate_component 0 (LovableMCPServer_init ''default'' ''react'')
         \<lparr>http_method = ''POST'', path = ''/generate_component'',
          headers = [(''X-API-Key'', ''test_key'')],
          json_result = Inr (JObj [(''type'', JStr ''not_a_type''), (''props'', JObj [])])\<rparr>)
     = Http_error 500 ''Internal server error occurred''"
proof -
  let ?req = "\<lparr>http_method = ''POST'', path = ''/generate_component'',
          headers = [(''X-API-Key'', ''test_key'')],
          json_result = Inr (JObj [(''type'', JStr ''not_a_type''), (''props'', JObj [])])\<rparr>"
  let ?e = "ValueError (''Reason cannot contain '' @ [CHR 0x5C, CHR ''n''])"
  have n: "\<not> is_HTTPException ?e" by simp
  have prem: "fst (generate_component_try 0 (LovableMCPServer_init ''default'' ''react'') ?req) = Inl ?e
              \<and> \<not> is_HTTPException ?e"
    using not_a_type_try n by (intro conjI)
  from internal_fault_generic_500 [THEN conjunct1, rule_format, OF prem] not_a_type_try n
  show ?thesis by (intro conjI)
qed

subsection \<open>Component generation\<close>

lemma send_except_clauses_Json:
  "send (except_clauses outcome) = Json_response body \<Longrightarrow> outcome = Inr (Json_response body)"
proof (cases outcome)
  case (Inl e)
  assume "send (except_clauses outcome) = Json_response body"
  with Inl show ?thesis by (cases e) simp_all
next
  case (Inr resp)
  assume "send (except_clauses outcome) = Json_response body"
  with Inr show ?thesis by simp
qed

lemma generate_component_no_success:
  "fst (generate_component now srv req) \<noteq> Json_response body"
proof
  assume "fst (generate_component now srv req) = Json_response body"
  then have "fst (generate_component_try now srv req) = Inr (Json_response body)"
    by (auto simp: generate_component_def split: prod.splits dest: send_except_clauses_Json)
  then show False
    by (auto simp: generate_component_try_def dumps_component
             split: prod.splits sum.splits exn.splits)
qed

text \<open>
  Claim C1 does not hold on the code. The request of the claim (\<^verbatim>\<open>POST
  /generate_component\<close>, a key with quota left, the body
  \<^verbatim>\<open>{"type": "button", "props": {}}\<close>) is answered 500 with the reason
  \<^verbatim>\<open>Internal server error occurred\<close>: \<^verbatim>\<open>component.dict()\<close> holds the enum member
  \<^verbatim>\<open>ComponentType.BUTTON\<close>, \<^verbatim>\<open>web.json_response\<close> cannot serialise it, and the
  \<^verbatim>\<open>TypeError\<close> is caught by the handler's \<^verbatim>\<open>except Exception\<close>.
\<close>

theorem valid_button_request_fails:
  "fst (handle 0 (LovableMCPServer_init ''default'' ''react'')
         \<lparr>http_method = ''POST'', path = ''/generate_component'',
          headers = [(''X-API-Key'', ''test_key'')],
          json_result = Inr (JObj [(''type'', JStr ''button''), (''props'', JObj [])])\<rparr>)
   = Http_error 500 ''Internal server error occurred''"
  by (simp add: handle_def generate_component_def generate_component_try_def
                validate_request_fresh parse_body_def UIComponent_init_def
                ComponentType_of_value_def dumps_component)

end
